theory Spec2Isabelle
  imports Main
begin

section \<open>Go values shared by the sources\<close>

text \<open>
  The fields typed \<^verbatim>\<open>int64\<close> and \<^verbatim>\<open>int\<close> are only stored, copied and compared
  with \<^verbatim>\<open>0\<close> or with each other; no arithmetic that could wrap is done on them, so they
  are integers here. A \<^verbatim>\<open>time.Time\<close> is the instant it denotes, counted in nanoseconds
  from Go's zero time (January 1 of year 1, 00:00:00 UTC), so that the zero value of the
  type is \<open>0\<close>; its location and monotonic reading are not represented.
\<close>

type_synonym int64 = int
type_synonym Time = int

definition IsZero :: "Time \<Rightarrow> bool" where
  "IsZero t = (t = 0)"

text \<open>\<^verbatim>\<open>time.UnixMilli(msec)\<close>: the Unix epoch lies 62135596800 seconds after the zero time.\<close>

definition time_UnixMilli :: "int64 \<Rightarrow> Time" where
  "time_UnixMilli msec = msec * 1000000 + 62135596800 * 1000000000"

text \<open>
  An \<^verbatim>\<open>error\<close> value is observed in two ways only: through \<^verbatim>\<open>err.Error()\<close> and through
  \<^verbatim>\<open>errors.Is(err, database.ErrNotFound)\<close>.
\<close>

record go_error =
  err_Error :: string
  err_IsNotFound :: bool

text \<open>\<^verbatim>\<open>fmt.Errorf(prefix + "%w", err)\<close>: the text is prefixed, the wrapped error is kept.\<close>

definition fmt_Errorf_w :: "string \<Rightarrow> go_error \<Rightarrow> go_error" where
  "fmt_Errorf_w prefix err = err\<lparr>err_Error := prefix @ err_Error err\<rparr>"

text \<open>
  \<^verbatim>\<open>strings.Join(elems, sep)\<close> and \<^verbatim>\<open>strings.Split(s, sep)\<close>, the latter for the
  one-character separator the translator passes.
\<close>

fun strings_Join :: "string list \<Rightarrow> string \<Rightarrow> string" where
  "strings_Join [] sep = []"
| "strings_Join [x] sep = x"
| "strings_Join (x # y # ys) sep = x @ sep @ strings_Join (y # ys) sep"

fun strings_Split :: "string \<Rightarrow> char \<Rightarrow> string list" where
  "strings_Split [] sep = [[]]"
| "strings_Split (c # cs) sep =
     (if c = sep then [] # strings_Split cs sep
      else (case strings_Split cs sep of
              [] \<Rightarrow> [[c]]
            | w # ws \<Rightarrow> (c # w) # ws))"

section \<open>Entities\<close>

text \<open>
  Modelled from the spec: the package \<^verbatim>\<open>entities\<close> (the struct declarations of Key,
  Ratelimit, Api and the type AuthType) is not among the sources. The records below have
  the fields that conversion.go and key_create.go read and write, with the types those
  uses force. A pointer that may be nil is an option. The field \<^verbatim>\<open>Meta\<close> is a
  \<^verbatim>\<open>map[string]any\<close>: \<open>None\<close> is the nil map, and the type of the values is left open,
  since no function here looks inside them.
\<close>

type_synonym 'v meta = "(string \<rightharpoonup> 'v) option"

record Ratelimit =
  rl_Type :: string
  rl_Limit :: int64
  rl_RefillRate :: int64
  rl_RefillInterval :: int64

record Remaining =
  rem_Enabled :: bool
  rem_Remaining :: int64

record 'v Key =
  k_Id :: string
  k_KeyAuthId :: string
  k_WorkspaceId :: string
  k_Name :: string
  k_Hash :: string
  k_Start :: string
  k_OwnerId :: string
  k_Meta :: "'v meta"
  k_CreatedAt :: Time
  k_Expires :: Time
  k_ForWorkspaceId :: string
  k_Ratelimit :: "Ratelimit option"
  k_Remaining :: Remaining

text \<open>
  Modelled from the spec: \<^verbatim>\<open>entities.AuthType\<close> with its two constants (the spec's enum
  \<^verbatim>\<open>key | jwt\<close>), taken to be a string type whose zero value is the empty string.
\<close>

type_synonym AuthType = string

definition AuthTypeKey :: AuthType where
  "AuthTypeKey = ''key''"

definition AuthTypeJWT :: AuthType where
  "AuthTypeJWT = ''jwt''"

record Api =
  a_Id :: string
  a_Name :: string
  a_WorkspaceId :: string
  a_IpWhitelist :: "string list"
  a_AuthType :: AuthType
  a_KeyAuthId :: string

section \<open>Persisted records\<close>

text \<open>
  The nullable columns of \<^verbatim>\<open>database/sql\<close>: a value and the flag that marks it present.
\<close>

record NullString =
  ns_String :: string
  ns_Valid :: bool

record NullInt64 =
  ni_Int64 :: int64
  ni_Valid :: bool

record NullTime =
  nt_Time :: Time
  nt_Valid :: bool

text \<open>
  Modelled from the spec: the package \<^verbatim>\<open>models\<close> (the row structs and the stored
  auth-type enum) is not among the sources. \<^verbatim>\<open>models.AuthType\<close> is a number type
  (conversion.go assigns it the literal 1); its method \<^verbatim>\<open>String()\<close> is a parameter of
  the functions that call it.
\<close>

type_synonym models_AuthType = int

record NullAuthType =
  nat_AuthType :: models_AuthType
  nat_Valid :: bool

record models_Key =
  mk_ID :: string
  mk_KeyAuthID :: NullString
  mk_Start :: string
  mk_WorkspaceID :: string
  mk_Hash :: string
  mk_OwnerID :: NullString
  mk_Name :: NullString
  mk_Meta :: NullString
  mk_CreatedAt :: Time
  mk_Expires :: NullTime
  mk_ForWorkspaceID :: NullString
  mk_RatelimitType :: NullString
  mk_RatelimitLimit :: NullInt64
  mk_RatelimitRefillRate :: NullInt64
  mk_RatelimitRefillInterval :: NullInt64
  mk_RemainingRequests :: NullInt64

record models_API =
  ma_ID :: string
  ma_Name :: string
  ma_WorkspaceID :: string
  ma_IPWhitelist :: NullString
  ma_AuthType :: NullAuthType
  ma_KeyAuthID :: NullString

section \<open>The translator (conversion.go)\<close>

text \<open>
  \<^verbatim>\<open>json.Marshal\<close> and \<^verbatim>\<open>json.Unmarshal\<close> belong to Go's library; the translator takes
  them as parameters. \<open>unmarshal\<close> is the call \<^verbatim>\<open>json.Unmarshal(data, &key.Meta)\<close> on the
  nil map of a fresh key: it fails, or gives the new value of the field.
\<close>

definition keyModelToEntity ::
  "(string \<Rightarrow> go_error + 'v meta) \<Rightarrow> models_Key \<Rightarrow> go_error + 'v Key" where
  "keyModelToEntity unmarshal model =
     (case (if ns_Valid (mk_Meta model) then unmarshal (ns_String (mk_Meta model))
            else Inr None) of
        Inl err \<Rightarrow> Inl (fmt_Errorf_w ''unable to unmarshal meta: '' err)
      | Inr m \<Rightarrow>
          Inr \<lparr> k_Id = mk_ID model,
                k_KeyAuthId =
                  (if ns_Valid (mk_KeyAuthID model) then ns_String (mk_KeyAuthID model) else []),
                k_WorkspaceId = mk_WorkspaceID model,
                k_Name = (if ns_Valid (mk_Name model) then ns_String (mk_Name model) else []),
                k_Hash = mk_Hash model,
                k_Start = mk_Start model,
                k_OwnerId =
                  (if ns_Valid (mk_OwnerID model) then ns_String (mk_OwnerID model) else []),
                k_Meta = m,
                k_CreatedAt = mk_CreatedAt model,
                k_Expires = (if nt_Valid (mk_Expires model) then nt_Time (mk_Expires model) else 0),
                k_ForWorkspaceId =
                  (if ns_Valid (mk_ForWorkspaceID model) then ns_String (mk_ForWorkspaceID model)
                   else []),
                k_Ratelimit =
                  (if ns_Valid (mk_RatelimitType model)
                   then Some \<lparr> rl_Type = ns_String (mk_RatelimitType model),
                               rl_Limit = ni_Int64 (mk_RatelimitLimit model),
                               rl_RefillRate = ni_Int64 (mk_RatelimitRefillRate model),
                               rl_RefillInterval = ni_Int64 (mk_RatelimitRefillInterval model) \<rparr>
                   else None),
                k_Remaining =
                  (if ni_Valid (mk_RemainingRequests model)
                   then \<lparr> rem_Enabled = True,
                          rem_Remaining = ni_Int64 (mk_RemainingRequests model) \<rparr>
                   else \<lparr> rem_Enabled = False, rem_Remaining = 0 \<rparr>) \<rparr>)"

definition keyEntityToModel ::
  "('v meta \<Rightarrow> go_error + string) \<Rightarrow> 'v Key \<Rightarrow> go_error + models_Key" where
  "keyEntityToModel marshal e =
     (case marshal (k_Meta e) of
        Inl err \<Rightarrow> Inl (fmt_Errorf_w ''unable to marshal meta: '' err)
      | Inr metaBuf \<Rightarrow>
          Inr \<lparr> mk_ID = k_Id e,
                mk_KeyAuthID = \<lparr> ns_String = k_KeyAuthId e, ns_Valid = (k_KeyAuthId e \<noteq> []) \<rparr>,
                mk_Start = k_Start e,
                mk_WorkspaceID = k_WorkspaceId e,
                mk_Hash = k_Hash e,
                mk_OwnerID = \<lparr> ns_String = k_OwnerId e, ns_Valid = (k_OwnerId e \<noteq> []) \<rparr>,
                mk_Name = \<lparr> ns_String = k_Name e, ns_Valid = (k_Name e \<noteq> []) \<rparr>,
                mk_Meta = \<lparr> ns_String = metaBuf, ns_Valid = (length metaBuf > 0) \<rparr>,
                mk_CreatedAt = k_CreatedAt e,
                mk_Expires = \<lparr> nt_Time = k_Expires e, nt_Valid = (\<not> IsZero (k_Expires e)) \<rparr>,
                mk_ForWorkspaceID =
                  \<lparr> ns_String = k_ForWorkspaceId e, ns_Valid = (k_ForWorkspaceId e \<noteq> []) \<rparr>,
                mk_RatelimitType =
                  (case k_Ratelimit e of
                     None \<Rightarrow> \<lparr> ns_String = [], ns_Valid = False \<rparr>
                   | Some r \<Rightarrow> \<lparr> ns_String = rl_Type r, ns_Valid = (rl_Type r \<noteq> []) \<rparr>),
                mk_RatelimitLimit =
                  (case k_Ratelimit e of
                     None \<Rightarrow> \<lparr> ni_Int64 = 0, ni_Valid = False \<rparr>
                   | Some r \<Rightarrow> \<lparr> ni_Int64 = rl_Limit r, ni_Valid = (rl_Limit r > 0) \<rparr>),
                mk_RatelimitRefillRate =
                  (case k_Ratelimit e of
                     None \<Rightarrow> \<lparr> ni_Int64 = 0, ni_Valid = False \<rparr>
                   | Some r \<Rightarrow> \<lparr> ni_Int64 = rl_RefillRate r, ni_Valid = (rl_RefillRate r > 0) \<rparr>),
                mk_RatelimitRefillInterval =
                  (case k_Ratelimit e of
                     None \<Rightarrow> \<lparr> ni_Int64 = 0, ni_Valid = False \<rparr>
                   | Some r \<Rightarrow>
                       \<lparr> ni_Int64 = rl_RefillInterval r, ni_Valid = (rl_RefillRate r > 0) \<rparr>),
                mk_RemainingRequests =
                  (if rem_Enabled (k_Remaining e)
                   then \<lparr> ni_Int64 = rem_Remaining (k_Remaining e), ni_Valid = True \<rparr>
                   else \<lparr> ni_Int64 = 0, ni_Valid = False \<rparr>) \<rparr>)"

definition apiEntityToModel :: "Api \<Rightarrow> models_API" where
  "apiEntityToModel a =
     \<lparr> ma_ID = a_Id a,
       ma_Name = a_Name a,
       ma_WorkspaceID = a_WorkspaceId a,
       ma_IPWhitelist =
         \<lparr> ns_String = strings_Join (a_IpWhitelist a) '','',
           ns_Valid = (length (a_IpWhitelist a) > 0) \<rparr>,
       ma_AuthType = \<lparr> nat_AuthType = 1, nat_Valid = True \<rparr>,
       ma_KeyAuthID = \<lparr> ns_String = a_KeyAuthId a, ns_Valid = (a_KeyAuthId a \<noteq> []) \<rparr> \<rparr>"

text \<open>
  The \<^verbatim>\<open>switch\<close> of \<^verbatim>\<open>apiModelToEntity\<close> has no default case: a stored auth type whose
  name is neither of the two leaves \<^verbatim>\<open>AuthType\<close> at its zero value. \<open>String\<close> is the
  method \<^verbatim>\<open>models.AuthType.String\<close>.
\<close>

definition apiModelToEntity :: "(models_AuthType \<Rightarrow> string) \<Rightarrow> models_API \<Rightarrow> Api" where
  "apiModelToEntity String model =
     (let a = \<lparr> a_Id = ma_ID model,
                 a_Name = ma_Name model,
                 a_WorkspaceId = ma_WorkspaceID model,
                 a_IpWhitelist = [],
                 a_AuthType = [],
                 a_KeyAuthId = ns_String (ma_KeyAuthID model) \<rparr>;
          a = (if ns_Valid (ma_IPWhitelist model)
               then a\<lparr>a_IpWhitelist := strings_Split (ns_String (ma_IPWhitelist model)) CHR '',''\<rparr>
               else a)
      in if nat_Valid (ma_AuthType model)
         then (if String (nat_AuthType (ma_AuthType model)) = ''key''
               then a\<lparr>a_KeyAuthId := ns_String (ma_KeyAuthID model), a_AuthType := AuthTypeKey\<rparr>
               else if String (nat_AuthType (ma_AuthType model)) = ''jwt''
               then a\<lparr>a_AuthType := AuthTypeJWT\<rparr>
               else a)
         else a)"

section \<open>The issuance handler (key_create.go)\<close>

record RequestRatelimit =
  rr_Type :: string
  rr_Limit :: int64
  rr_RefillRate :: int64
  rr_RefillInterval :: int64

record 'v CreateKeyRequest =
  rq_ApiId :: string
  rq_Prefix :: string
  rq_Name :: string
  rq_ByteLength :: int
  rq_OwnerId :: string
  rq_Meta :: "'v meta"
  rq_Expires :: int64
  rq_Ratelimit :: "RequestRatelimit option"
  rq_ForWorkspaceId :: string
  rq_Remaining :: int64

text \<open>
  Modelled from the spec: \<^verbatim>\<open>ErrorResponse\<close> and its codes are declared in a file of
  package \<^verbatim>\<open>server\<close> that is not among the sources; the spec gives the shape
  \<^verbatim>\<open>{code, error}\<close> and the three codes. \<^verbatim>\<open>CreateKeyResponse\<close> is the struct of
  key_create.go: the plaintext key, then the key id.
\<close>

datatype ErrorCode = BAD_REQUEST | UNAUTHORIZED | INTERNAL_SERVER_ERROR

datatype body =
    ErrorResponse ErrorCode string
  | CreateKeyResponse string string

text \<open>
  How a call of the handler ends: a JSON body sent with an HTTP status (a plain
  \<^verbatim>\<open>c.JSON\<close> sends 200; writing the body is taken to succeed), the error of
  \<^verbatim>\<open>getKeyHash\<close> handed back to the framework, or the run-time panic of a slice expression
  that is out of range. Tracing and logging are left out.
\<close>

datatype outcome =
    JSON nat body
  | Return go_error
  | Panic

text \<open>
  What the handler does to its collaborators, in the order it does it: the three calls of
  the \<^verbatim>\<open>Database\<close> interface (interface.go) it makes, and the goroutine it starts to
  publish the key event.
\<close>

datatype 'v effect =
    GetKeyByHash string
  | GetApi string
  | CreateKey "'v Key"
  | GoProduceKeyEvent string string

text \<open>
  The server: its validator, the \<^verbatim>\<open>Database\<close> it was given (any implementation, acting on
  a state of its own of type \<open>'db\<close>) and whether a Kafka producer is configured.
\<close>

record ('db, 'v) Server =
  validator_Struct :: "'v CreateKeyRequest \<Rightarrow> go_error option"
  db_GetKeyByHash :: "'db \<Rightarrow> string \<Rightarrow> (go_error + 'v Key) \<times> 'db"
  db_GetApi :: "'db \<Rightarrow> string \<Rightarrow> (go_error + Api) \<times> 'db"
  db_CreateKey :: "'db \<Rightarrow> 'v Key \<Rightarrow> go_error option \<times> 'db"
  kafka :: bool

text \<open>
  The request as the handler sees it: \<^verbatim>\<open>c.BodyParser(&req)\<close>, which fails or fills the
  request it is given, and \<^verbatim>\<open>c.Get("Authorization")\<close>.
\<close>

record 'v Ctx =
  BodyParser :: "'v CreateKeyRequest \<Rightarrow> go_error + 'v CreateKeyRequest"
  Get_Authorization :: string

text \<open>
  What the handler takes from other packages and from the clock during one call:
  \<^verbatim>\<open>getKeyHash\<close> (package server, another file), \<^verbatim>\<open>keys.NewV1Key\<close>, \<^verbatim>\<open>hash.Sha256\<close>,
  the identifier \<^verbatim>\<open>uid.Key()\<close> returns, the two readings of \<^verbatim>\<open>time.Now()\<close> (the first
  as Unix milliseconds) and the text \<^verbatim>\<open>%+v\<close> prints for an Api.
\<close>

record World =
  getKeyHash :: "string \<Rightarrow> go_error + string"
  keys_NewV1Key :: "string \<Rightarrow> int \<Rightarrow> go_error + string"
  hash_Sha256 :: "string \<Rightarrow> string"
  uid_Key :: string
  time_Now_UnixMilli :: int64
  time_Now :: Time
  Sprintf_Api :: "Api \<Rightarrow> string"

definition expires_message :: string where
  "expires_message =
     CHR 0x27 # ''expires'' @ CHR 0x27 #
     '' must be in the future, did you pass in a timestamp in seconds instead of milliseconds?''"

text \<open>The request the body is parsed into: zero values, and the default byte length.\<close>

definition defaultRequest :: "'v CreateKeyRequest" where
  "defaultRequest =
     \<lparr> rq_ApiId = [], rq_Prefix = [], rq_Name = [], rq_ByteLength = 16, rq_OwnerId = [],
       rq_Meta = None, rq_Expires = 0, rq_Ratelimit = None, rq_ForWorkspaceId = [],
       rq_Remaining = 0 \<rparr>"

text \<open>
  Lines 143 to 168: the new key. \<^verbatim>\<open>keyValue[:startLength]\<close> is \<open>take\<close> here; the handler
  below panics instead of calling this function when the slice is out of range.
\<close>

definition newKey :: "World \<Rightarrow> 'v CreateKeyRequest \<Rightarrow> 'v Key \<Rightarrow> Api \<Rightarrow> string \<Rightarrow> 'v Key" where
  "newKey w req authKey api keyValue =
     \<lparr> k_Id = uid_Key w,
       k_KeyAuthId = a_KeyAuthId api,
       k_WorkspaceId = k_ForWorkspaceId authKey,
       k_Name = rq_Name req,
       k_Hash = hash_Sha256 w keyValue,
       k_Start = take (length (rq_Prefix req) + 5) keyValue,
       k_OwnerId = rq_OwnerId req,
       k_Meta = rq_Meta req,
       k_CreatedAt = time_Now w,
       k_Expires = (if rq_Expires req > 0 then time_UnixMilli (rq_Expires req) else 0),
       k_ForWorkspaceId = [],
       k_Ratelimit =
         (case rq_Ratelimit req of
            None \<Rightarrow> None
          | Some r \<Rightarrow>
              Some \<lparr> rl_Type = rr_Type r, rl_Limit = rr_Limit r,
                     rl_RefillRate = rr_RefillRate r,
                     rl_RefillInterval = rr_RefillInterval r \<rparr>),
       k_Remaining =
         (if rq_Remaining req > 0
          then \<lparr> rem_Enabled = True, rem_Remaining = rq_Remaining req \<rparr>
          else \<lparr> rem_Enabled = False, rem_Remaining = 0 \<rparr>) \<rparr>"

text \<open>
  \<^verbatim>\<open>createKey\<close>, from the database state \<open>d\<close>: how the call ends, what it did, and the
  database state it leaves.
\<close>

definition createKey ::
  "World \<Rightarrow> ('db, 'v) Server \<Rightarrow> 'v Ctx \<Rightarrow> 'db \<Rightarrow> outcome \<times> 'v effect list \<times> 'db" where
  "createKey w s c d =
     (case BodyParser c defaultRequest of
        Inl err \<Rightarrow>
          (JSON 400 (ErrorResponse BAD_REQUEST (''unable to parse body: '' @ err_Error err)), [], d)
      | Inr req \<Rightarrow>
     (case validator_Struct s req of
        Some err \<Rightarrow>
          (JSON 400 (ErrorResponse BAD_REQUEST (''unable to validate body: '' @ err_Error err)),
           [], d)
      | None \<Rightarrow>
     if rq_Expires req > 0 \<and> rq_Expires req < time_Now_UnixMilli w
     then (JSON 400 (ErrorResponse BAD_REQUEST expires_message), [], d)
     else
     (case getKeyHash w (Get_Authorization c) of
        Inl err \<Rightarrow> (Return err, [], d)
      | Inr authHash \<Rightarrow>
     (case db_GetKeyByHash s d authHash of
        (Inl err, d1) \<Rightarrow>
          if err_IsNotFound err
          then (JSON 401 (ErrorResponse UNAUTHORIZED ''unauthorized''), [GetKeyByHash authHash], d1)
          else (JSON 500 (ErrorResponse INTERNAL_SERVER_ERROR
                            (''unable to find key: '' @ err_Error err)),
                [GetKeyByHash authHash], d1)
      | (Inr authKey, d1) \<Rightarrow>
     if k_ForWorkspaceId authKey = []
     then (JSON 400 (ErrorResponse BAD_REQUEST ''wrong key type''), [GetKeyByHash authHash], d1)
     else
     (case db_GetApi s d1 (rq_ApiId req) of
        (Inl err, d2) \<Rightarrow>
          if err_IsNotFound err
          then (JSON 400 (ErrorResponse BAD_REQUEST ''wrong apiId''),
                [GetKeyByHash authHash, GetApi (rq_ApiId req)], d2)
          else (JSON 500 (ErrorResponse INTERNAL_SERVER_ERROR
                            (''unable to find api: '' @ err_Error err)),
                [GetKeyByHash authHash, GetApi (rq_ApiId req)], d2)
      | (Inr api, d2) \<Rightarrow>
     if a_WorkspaceId api \<noteq> k_ForWorkspaceId authKey
     then (JSON 401 (ErrorResponse UNAUTHORIZED ''access to workspace denied''),
           [GetKeyByHash authHash, GetApi (rq_ApiId req)], d2)
     else if a_AuthType api \<noteq> AuthTypeKey \<or> a_KeyAuthId api = []
     then (JSON 400 (ErrorResponse BAD_REQUEST
                       (''api is not set up to handle key auth: '' @ Sprintf_Api w api)),
           [GetKeyByHash authHash, GetApi (rq_ApiId req)], d2)
     else
     (case keys_NewV1Key w (rq_Prefix req) (rq_ByteLength req) of
        Inl err \<Rightarrow>
          (JSON 500 (ErrorResponse INTERNAL_SERVER_ERROR (err_Error err)),
           [GetKeyByHash authHash, GetApi (rq_ApiId req)], d2)
      | Inr keyValue \<Rightarrow>
     if length (rq_Prefix req) + 5 > length keyValue
     then (Panic, [GetKeyByHash authHash, GetApi (rq_ApiId req)], d2)
     else
     (case db_CreateKey s d2 (newKey w req authKey api keyValue) of
        (Some err, d3) \<Rightarrow>
          (JSON 500 (ErrorResponse INTERNAL_SERVER_ERROR
                       (''unable to store key: '' @ err_Error err)),
           [GetKeyByHash authHash, GetApi (rq_ApiId req),
            CreateKey (newKey w req authKey api keyValue)], d3)
      | (None, d3) \<Rightarrow>
          (JSON 200 (CreateKeyResponse keyValue (k_Id (newKey w req authKey api keyValue))),
           [GetKeyByHash authHash, GetApi (rq_ApiId req),
            CreateKey (newKey w req authKey api keyValue)]
           @ (if kafka s
              then [GoProduceKeyEvent (k_Id (newKey w req authKey api keyValue))
                                      (k_Hash (newKey w req authKey api keyValue))]
              else []),
           d3))))))))"

section \<open>Example values\<close>

text \<open>
  Concrete collaborators and inputs, used where a statement is evaluated at an input. The
  example database keeps the list of the keys it was asked to create; it knows one key (by
  its hash) and one Api (by its id).
\<close>

definition not_found :: go_error where
  "not_found = \<lparr> err_Error = ''not found'', err_IsNotFound = True \<rparr>"

definition root_key :: "string Key" where
  "root_key =
     \<lparr> k_Id = ''key_root'', k_KeyAuthId = ''ka_root'', k_WorkspaceId = ''ws_root'',
       k_Name = [], k_Hash = ''H(root)'', k_Start = ''root_'', k_OwnerId = [], k_Meta = None,
       k_CreatedAt = 1, k_Expires = 0, k_ForWorkspaceId = ''workspace_1'',
       k_Ratelimit = None, k_Remaining = \<lparr> rem_Enabled = False, rem_Remaining = 0 \<rparr> \<rparr>"

definition api_1 :: Api where
  "api_1 =
     \<lparr> a_Id = ''api_1'', a_Name = ''orders'', a_WorkspaceId = ''workspace_1'',
       a_IpWhitelist = [], a_AuthType = AuthTypeKey, a_KeyAuthId = ''ka_1'' \<rparr>"

definition example_server :: "Api \<Rightarrow> string Key \<Rightarrow> (string Key list, string) Server" where
  "example_server api k =
     \<lparr> validator_Struct =
         (\<lambda>req. if rq_ApiId req = []
                then Some \<lparr> err_Error = ''ApiId is required'', err_IsNotFound = False \<rparr>
                else None),
       db_GetKeyByHash = (\<lambda>d h. (if h = k_Hash k then Inr k else Inl not_found, d)),
       db_GetApi = (\<lambda>d i. (if i = a_Id api then Inr api else Inl not_found, d)),
       db_CreateKey = (\<lambda>d new. (None, d @ [new])),
       kafka = False \<rparr>"

definition example_world :: "int64 \<Rightarrow> World" where
  "example_world now =
     \<lparr> getKeyHash = (\<lambda>h. Inr (''H('' @ h @ '')'')),
       keys_NewV1Key = (\<lambda>p n. Inr (p @ ''_3ZxQh7Kw'')),
       hash_Sha256 = (\<lambda>x. ''H('' @ x @ '')''),
       uid_Key = ''key_new'',
       time_Now_UnixMilli = now,
       time_Now = time_UnixMilli now,
       Sprintf_Api = a_Id \<rparr>"

definition example_request :: "int64 \<Rightarrow> string CreateKeyRequest" where
  "example_request expires =
     defaultRequest\<lparr> rq_ApiId := ''api_1'', rq_Prefix := ''sk'', rq_Expires := expires \<rparr>"

definition example_ctx :: "int64 \<Rightarrow> string Ctx" where
  "example_ctx expires =
     \<lparr> BodyParser =
         (\<lambda>req. Inr (req\<lparr> rq_ApiId := ''api_1'', rq_Prefix := ''sk'', rq_Expires := expires \<rparr>)),
       Get_Authorization = ''root'' \<rparr>"

definition key_full :: "string Key" where
  "key_full =
     \<lparr> k_Id = ''key_1'', k_KeyAuthId = ''ka_1'', k_WorkspaceId = ''workspace_1'',
       k_Name = ''billing'', k_Hash = ''H(sk_1)'', k_Start = ''sk_3ZxQ'', k_OwnerId = ''user_7'',
       k_Meta = Some (Map.empty(''plan'' \<mapsto> ''pro'')),
       k_CreatedAt = 5, k_Expires = 7, k_ForWorkspaceId = ''workspace_2'',
       k_Ratelimit =
         Some \<lparr> rl_Type = ''fast'', rl_Limit = 10, rl_RefillRate = 1, rl_RefillInterval = 1000 \<rparr>,
       k_Remaining = \<lparr> rem_Enabled = True, rem_Remaining = 3 \<rparr> \<rparr>"

definition key_quota_off :: "string Key" where
  "key_quota_off = root_key\<lparr>k_Remaining := \<lparr> rem_Enabled = False, rem_Remaining = 7 \<rparr>\<rparr>"

definition key_untyped_policy :: "string Key" where
  "key_untyped_policy =
     root_key\<lparr>k_Ratelimit :=
       Some \<lparr> rl_Type = [], rl_Limit = 10, rl_RefillRate = 1, rl_RefillInterval = 1000 \<rparr>\<rparr>"

definition key_partial_policy :: "string Key" where
  "key_partial_policy =
     root_key\<lparr>k_Ratelimit :=
       Some \<lparr> rl_Type = ''fast'', rl_Limit = 10, rl_RefillRate = 0, rl_RefillInterval = 1000 \<rparr>\<rparr>"

definition example_String :: "models_AuthType \<Rightarrow> string" where
  "example_String t = (if t = 1 then ''key'' else if t = 2 then ''jwt'' else ''AuthType(?)'')"

definition stored_api :: "models_AuthType \<Rightarrow> NullString \<Rightarrow> models_API" where
  "stored_api t keyAuthID =
     \<lparr> ma_ID = ''api_1'', ma_Name = ''orders'', ma_WorkspaceID = ''workspace_1'',
       ma_IPWhitelist = \<lparr> ns_String = [], ns_Valid = False \<rparr>,
       ma_AuthType = \<lparr> nat_AuthType = t, nat_Valid = True \<rparr>,
       ma_KeyAuthID = keyAuthID \<rparr>"

section \<open>Supporting lemmas\<close>

lemma strings_Split_nonempty: "strings_Split s sep \<noteq> []"
  by (induction s) (auto split: list.splits)

text \<open>The columns \<^verbatim>\<open>keyEntityToModel\<close> writes, one fact per field.\<close>

lemma keyEntityToModel_Inr:
  assumes "keyEntityToModel marshal e = Inr m"
  shows "\<exists>buf. marshal (k_Meta e) = Inr buf \<and>
               mk_Meta m = \<lparr> ns_String = buf, ns_Valid = (buf \<noteq> []) \<rparr>"
    and "mk_ID m = k_Id e"
    and "mk_KeyAuthID m = \<lparr> ns_String = k_KeyAuthId e, ns_Valid = (k_KeyAuthId e \<noteq> []) \<rparr>"
    and "mk_Start m = k_Start e"
    and "mk_WorkspaceID m = k_WorkspaceId e"
    and "mk_Hash m = k_Hash e"
    and "mk_OwnerID m = \<lparr> ns_String = k_OwnerId e, ns_Valid = (k_OwnerId e \<noteq> []) \<rparr>"
    and "mk_Name m = \<lparr> ns_String = k_Name e, ns_Valid = (k_Name e \<noteq> []) \<rparr>"
    and "mk_CreatedAt m = k_CreatedAt e"
    and "mk_Expires m = \<lparr> nt_Time = k_Expires e, nt_Valid = (k_Expires e \<noteq> 0) \<rparr>"
    and "mk_ForWorkspaceID m =
           \<lparr> ns_String = k_ForWorkspaceId e, ns_Valid = (k_ForWorkspaceId e \<noteq> []) \<rparr>"
    and "mk_RemainingRequests m =
           (if rem_Enabled (k_Remaining e)
            then \<lparr> ni_Int64 = rem_Remaining (k_Remaining e), ni_Valid = True \<rparr>
            else \<lparr> ni_Int64 = 0, ni_Valid = False \<rparr>)"
  using assms
  by (auto simp: keyEntityToModel_def IsZero_def split: sum.splits)

lemma keyEntityToModel_ratelimit_None:
  assumes "keyEntityToModel marshal e = Inr m" and "k_Ratelimit e = None"
  shows "mk_RatelimitType m = \<lparr> ns_String = [], ns_Valid = False \<rparr>"
    and "mk_RatelimitLimit m = \<lparr> ni_Int64 = 0, ni_Valid = False \<rparr>"
    and "mk_RatelimitRefillRate m = \<lparr> ni_Int64 = 0, ni_Valid = False \<rparr>"
    and "mk_RatelimitRefillInterval m = \<lparr> ni_Int64 = 0, ni_Valid = False \<rparr>"
  using assms
  by (auto simp: keyEntityToModel_def split: sum.splits)

lemma keyEntityToModel_ratelimit_Some:
  assumes "keyEntityToModel marshal e = Inr m" and "k_Ratelimit e = Some r"
  shows "mk_RatelimitType m = \<lparr> ns_String = rl_Type r, ns_Valid = (rl_Type r \<noteq> []) \<rparr>"
    and "mk_RatelimitLimit m = \<lparr> ni_Int64 = rl_Limit r, ni_Valid = (rl_Limit r > 0) \<rparr>"
    and "mk_RatelimitRefillRate m =
           \<lparr> ni_Int64 = rl_RefillRate r, ni_Valid = (rl_RefillRate r > 0) \<rparr>"
    and "mk_RatelimitRefillInterval m =
           \<lparr> ni_Int64 = rl_RefillInterval r, ni_Valid = (rl_RefillRate r > 0) \<rparr>"
  using assms
  by (auto simp: keyEntityToModel_def split: sum.splits)

text \<open>
  The expiry check of line 70 as it is written: a positive \<^verbatim>\<open>expires\<close> strictly below the
  clock's reading ends the call with 400 before any collaborator is touched.
\<close>

lemma createKey_rejects_past_expiry:
  assumes "BodyParser c defaultRequest = Inr req"
    and "validator_Struct s req = None"
    and "0 < rq_Expires req" and "rq_Expires req < time_Now_UnixMilli w"
  shows "createKey w s c d = (JSON 400 (ErrorResponse BAD_REQUEST expires_message), [], d)"
  using assms by (simp add: createKey_def)

text \<open>
  The check of line 125 as it is written: a request that reaches it with an Api whose auth
  type is not \<^verbatim>\<open>key\<close>, or whose \<^verbatim>\<open>keyAuthId\<close> is empty, is answered 400 after the two
  lookups, and nothing is stored.
\<close>

lemma createKey_rejects_unconfigured_api:
  assumes "BodyParser c defaultRequest = Inr req"
    and "validator_Struct s req = None"
    and "\<not> (rq_Expires req > 0 \<and> rq_Expires req < time_Now_UnixMilli w)"
    and "getKeyHash w (Get_Authorization c) = Inr authHash"
    and "db_GetKeyByHash s d authHash = (Inr authKey, d1)"
    and "k_ForWorkspaceId authKey \<noteq> []"
    and "db_GetApi s d1 (rq_ApiId req) = (Inr api, d2)"
    and "a_WorkspaceId api = k_ForWorkspaceId authKey"
    and "a_AuthType api \<noteq> AuthTypeKey \<or> a_KeyAuthId api = []"
  shows "createKey w s c d =
           (JSON 400 (ErrorResponse BAD_REQUEST
                        (''api is not set up to handle key auth: '' @ Sprintf_Api w api)),
            [GetKeyByHash authHash, GetApi (rq_ApiId req)], d2)"
  using assms by (auto simp: createKey_def)

section \<open>Issuance: the authorization chain\<close>

text \<open>
  Claim C1. A request that passes every step (the body parses and validates, the expiry
  check lets it through, the presented credential resolves to a key with a non-empty
  \<^verbatim>\<open>forWorkspaceId\<close>, the target Api is found, belongs to that workspace and is set up for
  key auth, the generator returns a key long enough for the display prefix) and whose
  \<^verbatim>\<open>CreateKey\<close> call succeeds ends with status 200 and the body \<^verbatim>\<open>{key, keyId}\<close>: the
  plaintext and the id of the key handed to \<^verbatim>\<open>CreateKey\<close>. That key is the only one
  stored; its workspace is the root key's \<^verbatim>\<open>forWorkspaceId\<close>, its \<^verbatim>\<open>keyAuthId\<close> is the
  Api's, and its hash is the digest of the plaintext in the response.
\<close>

theorem createKey_scopes_new_key:
  assumes "BodyParser c defaultRequest = Inr req"
    and "validator_Struct s req = None"
    and "\<not> (rq_Expires req > 0 \<and> rq_Expires req < time_Now_UnixMilli w)"
    and "getKeyHash w (Get_Authorization c) = Inr authHash"
    and "db_GetKeyByHash s d authHash = (Inr authKey, d1)"
    and "k_ForWorkspaceId authKey \<noteq> []"
    and "db_GetApi s d1 (rq_ApiId req) = (Inr api, d2)"
    and "a_WorkspaceId api = k_ForWorkspaceId authKey"
    and "a_AuthType api = AuthTypeKey" and "a_KeyAuthId api \<noteq> []"
    and "keys_NewV1Key w (rq_Prefix req) (rq_ByteLength req) = Inr keyValue"
    and "length (rq_Prefix req) + 5 \<le> length keyValue"
    and "db_CreateKey s d2 (newKey w req authKey api keyValue) = (None, d3)"
  shows "createKey w s c d =
           (JSON 200 (CreateKeyResponse keyValue (k_Id (newKey w req authKey api keyValue))),
            [GetKeyByHash authHash, GetApi (rq_ApiId req),
             CreateKey (newKey w req authKey api keyValue)]
            @ (if kafka s
               then [GoProduceKeyEvent (k_Id (newKey w req authKey api keyValue))
                                       (k_Hash (newKey w req authKey api keyValue))]
               else []),
            d3)
         \<and> k_WorkspaceId (newKey w req authKey api keyValue) = k_ForWorkspaceId authKey
         \<and> k_KeyAuthId (newKey w req authKey api keyValue) = a_KeyAuthId api
         \<and> k_Hash (newKey w req authKey api keyValue) = hash_Sha256 w keyValue"
proof -
  have run: "createKey w s c d =
           (JSON 200 (CreateKeyResponse keyValue (k_Id (newKey w req authKey api keyValue))),
            [GetKeyByHash authHash, GetApi (rq_ApiId req),
             CreateKey (newKey w req authKey api keyValue)]
            @ (if kafka s
               then [GoProduceKeyEvent (k_Id (newKey w req authKey api keyValue))
                                       (k_Hash (newKey w req authKey api keyValue))]
               else []),
            d3)"
    using assms by (simp add: createKey_def)
  have fields:
    "k_WorkspaceId (newKey w req authKey api keyValue) = k_ForWorkspaceId authKey"
    "k_KeyAuthId (newKey w req authKey api keyValue) = a_KeyAuthId api"
    "k_Hash (newKey w req authKey api keyValue) = hash_Sha256 w keyValue"
    by (simp_all add: newKey_def)
  from run fields show ?thesis by simp
qed

text \<open>
  At the example: the root key lives in \<^verbatim>\<open>ws_root\<close> and is scoped to \<^verbatim>\<open>workspace_1\<close>; the
  stored key belongs to \<^verbatim>\<open>workspace_1\<close>.
\<close>

theorem createKey_scopes_new_key_witness:
  "createKey (example_world 1000) (example_server api_1 root_key) (example_ctx 0) [] =
     (JSON 200 (CreateKeyResponse ''sk_3ZxQh7Kw'' ''key_new''),
      [GetKeyByHash ''H(root)'', GetApi ''api_1'',
       CreateKey (newKey (example_world 1000) (example_request 0) root_key api_1 ''sk_3ZxQh7Kw'')],
      [newKey (example_world 1000) (example_request 0) root_key api_1 ''sk_3ZxQh7Kw''])
   \<and> k_WorkspaceId (newKey (example_world 1000) (example_request 0) root_key api_1
         ''sk_3ZxQh7Kw'') = ''workspace_1''
   \<and> k_WorkspaceId root_key = ''ws_root''
   \<and> k_KeyAuthId (newKey (example_world 1000) (example_request 0) root_key api_1
         ''sk_3ZxQh7Kw'') = ''ka_1''
   \<and> k_Hash (newKey (example_world 1000) (example_request 0) root_key api_1
         ''sk_3ZxQh7Kw'') = ''H(sk_3ZxQh7Kw)''"
proof -
  let ?w = "example_world 1000" and ?s = "example_server api_1 root_key"
  let ?k = "newKey ?w (example_request 0) root_key api_1 ''sk_3ZxQh7Kw''"
  have parse: "BodyParser (example_ctx 0) defaultRequest = Inr (example_request 0)"
    by (simp add: example_ctx_def example_request_def)
  have valid: "validator_Struct ?s (example_request 0) = None"
    by (simp add: example_server_def example_request_def)
  have expiry: "\<not> (rq_Expires (example_request 0) > 0
                  \<and> rq_Expires (example_request 0) < time_Now_UnixMilli ?w)"
    by (simp add: example_request_def)
  have hash: "getKeyHash ?w (Get_Authorization (example_ctx 0)) = Inr ''H(root)''"
    by (simp add: example_world_def example_ctx_def)
  have auth: "db_GetKeyByHash ?s [] ''H(root)'' = (Inr root_key, [])"
    by (simp add: example_server_def root_key_def)
  have root: "k_ForWorkspaceId root_key \<noteq> []"
    by (simp add: root_key_def)
  have api: "db_GetApi ?s [] (rq_ApiId (example_request 0)) = (Inr api_1, [])"
    by (simp add: example_server_def example_request_def api_1_def)
  have scope: "a_WorkspaceId api_1 = k_ForWorkspaceId root_key"
    by (simp add: api_1_def root_key_def)
  have conf: "a_AuthType api_1 = AuthTypeKey" "a_KeyAuthId api_1 \<noteq> []"
    by (simp_all add: api_1_def)
  have gen: "keys_NewV1Key ?w (rq_Prefix (example_request 0))
               (rq_ByteLength (example_request 0)) = Inr ''sk_3ZxQh7Kw''"
    by (simp add: example_world_def example_request_def)
  have long: "length (rq_Prefix (example_request 0)) + 5 \<le> length ''sk_3ZxQh7Kw''"
    by (simp add: example_request_def)
  have store: "db_CreateKey ?s [] ?k = (None, [?k])"
    by (simp add: example_server_def)
  have off: "\<not> kafka ?s" "uid_Key ?w = ''key_new''"
    "hash_Sha256 ?w ''sk_3ZxQh7Kw'' = ''H(sk_3ZxQh7Kw)''"
    "k_ForWorkspaceId root_key = ''workspace_1''" "k_WorkspaceId root_key = ''ws_root''"
    "a_KeyAuthId api_1 = ''ka_1''" "k_Id ?k = ''key_new''"
    "rq_ApiId (example_request 0) = ''api_1''"
    by (simp_all add: example_server_def example_world_def root_key_def api_1_def newKey_def
        example_request_def)
  from createKey_scopes_new_key
         [OF parse valid expiry hash auth root api scope conf gen long store]
  show ?thesis
    by (simp add: off)
qed

text \<open>
  Claim C2. When the presented credential resolves to a key whose \<^verbatim>\<open>forWorkspaceId\<close> is
  empty, the call ends with 400 \<^verbatim>\<open>BAD_REQUEST\<close> and never calls \<^verbatim>\<open>CreateKey\<close>, whatever
  the rest of the request, the Api and the generator are; a request that got past parsing,
  validation and the expiry check is answered "wrong key type" after the one lookup.
\<close>

theorem createKey_rejects_non_root_key:
  assumes "getKeyHash w (Get_Authorization c) = Inr authHash"
    and "db_GetKeyByHash s d authHash = (Inr authKey, d1)"
    and "k_ForWorkspaceId authKey = []"
  shows "(\<exists>msg. fst (createKey w s c d) = JSON 400 (ErrorResponse BAD_REQUEST msg))
         \<and> (\<forall>k. CreateKey k \<notin> set (fst (snd (createKey w s c d))))
         \<and> (\<forall>req. BodyParser c defaultRequest = Inr req \<and> validator_Struct s req = None
                  \<and> \<not> (rq_Expires req > 0 \<and> rq_Expires req < time_Now_UnixMilli w)
              \<longrightarrow> createKey w s c d =
                    (JSON 400 (ErrorResponse BAD_REQUEST ''wrong key type''),
                     [GetKeyByHash authHash], d1))"
proof (intro conjI allI impI)
  show "\<exists>msg. fst (createKey w s c d) = JSON 400 (ErrorResponse BAD_REQUEST msg)"
    using assms by (auto simp: createKey_def split: sum.splits option.splits)
next
  fix k
  show "CreateKey k \<notin> set (fst (snd (createKey w s c d)))"
    using assms by (auto simp: createKey_def split: sum.splits option.splits)
next
  fix req
  assume "BodyParser c defaultRequest = Inr req \<and> validator_Struct s req = None
          \<and> \<not> (rq_Expires req > 0 \<and> rq_Expires req < time_Now_UnixMilli w)"
  with assms show "createKey w s c d =
      (JSON 400 (ErrorResponse BAD_REQUEST ''wrong key type''), [GetKeyByHash authHash], d1)"
    by (simp add: createKey_def)
qed

text \<open>
  At the example: the same valid request as before, presented with a key that is not a
  root key.
\<close>

theorem createKey_rejects_non_root_key_witness:
  "k_ForWorkspaceId (root_key\<lparr>k_ForWorkspaceId := []\<rparr>) = []
   \<and> createKey (example_world 1000)
        (example_server api_1 (root_key\<lparr>k_ForWorkspaceId := []\<rparr>)) (example_ctx 0) [] =
      (JSON 400 (ErrorResponse BAD_REQUEST ''wrong key type''), [GetKeyByHash ''H(root)''], [])"
proof -
  let ?w = "example_world 1000"
  let ?s = "example_server api_1 (root_key\<lparr>k_ForWorkspaceId := []\<rparr>)"
  have hash: "getKeyHash ?w (Get_Authorization (example_ctx 0)) = Inr ''H(root)''"
    by (simp add: example_world_def example_ctx_def)
  have auth: "db_GetKeyByHash ?s [] ''H(root)'' = (Inr (root_key\<lparr>k_ForWorkspaceId := []\<rparr>), [])"
    by (simp add: example_server_def root_key_def)
  have plain: "k_ForWorkspaceId (root_key\<lparr>k_ForWorkspaceId := []\<rparr>) = []"
    by simp
  have passes: "BodyParser (example_ctx 0) defaultRequest = Inr (example_request 0)
      \<and> validator_Struct ?s (example_request 0) = None
      \<and> \<not> (rq_Expires (example_request 0) > 0
            \<and> rq_Expires (example_request 0) < time_Now_UnixMilli ?w)"
    by (simp add: example_ctx_def example_request_def example_server_def)
  from createKey_rejects_non_root_key [OF hash auth plain] passes
  have "createKey ?w ?s (example_ctx 0) [] =
      (JSON 400 (ErrorResponse BAD_REQUEST ''wrong key type''), [GetKeyByHash ''H(root)''], [])"
    by blast
  with plain show ?thesis by blast
qed

text \<open>
  Claim C3. A request that reaches the workspace-scope step (parsed, validated, past the
  expiry check, authenticated by a root key) and whose target Api exists in a workspace
  other than the root key's \<^verbatim>\<open>forWorkspaceId\<close> is answered 401 \<^verbatim>\<open>UNAUTHORIZED\<close>; the only
  storage calls are the two lookups, so no key is created. Nothing is assumed about the
  Api's auth type or \<^verbatim>\<open>keyAuthId\<close>.
\<close>

theorem createKey_rejects_other_workspace:
  assumes "BodyParser c defaultRequest = Inr req"
    and "validator_Struct s req = None"
    and "\<not> (rq_Expires req > 0 \<and> rq_Expires req < time_Now_UnixMilli w)"
    and "getKeyHash w (Get_Authorization c) = Inr authHash"
    and "db_GetKeyByHash s d authHash = (Inr authKey, d1)"
    and "k_ForWorkspaceId authKey \<noteq> []"
    and "db_GetApi s d1 (rq_ApiId req) = (Inr api, d2)"
    and "a_WorkspaceId api \<noteq> k_ForWorkspaceId authKey"
  shows "createKey w s c d =
           (JSON 401 (ErrorResponse UNAUTHORIZED ''access to workspace denied''),
            [GetKeyByHash authHash, GetApi (rq_ApiId req)], d2)"
  using assms by (simp add: createKey_def)

text \<open>
  At the example of the spec: \<^verbatim>\<open>api_1\<close> moved to \<^verbatim>\<open>workspace_2\<close>, the root key scoped to
  \<^verbatim>\<open>workspace_1\<close>.
\<close>

theorem createKey_rejects_other_workspace_witness:
  "a_WorkspaceId (api_1\<lparr>a_WorkspaceId := ''workspace_2''\<rparr>) \<noteq> k_ForWorkspaceId root_key
   \<and> createKey (example_world 1000)
        (example_server (api_1\<lparr>a_WorkspaceId := ''workspace_2''\<rparr>) root_key) (example_ctx 0) [] =
      (JSON 401 (ErrorResponse UNAUTHORIZED ''access to workspace denied''),
       [GetKeyByHash ''H(root)'', GetApi ''api_1''], [])"
proof -
  let ?w = "example_world 1000"
  let ?api = "api_1\<lparr>a_WorkspaceId := ''workspace_2''\<rparr>"
  let ?s = "example_server ?api root_key"
  have parse: "BodyParser (example_ctx 0) defaultRequest = Inr (example_request 0)"
    by (simp add: example_ctx_def example_request_def)
  have valid: "validator_Struct ?s (example_request 0) = None"
    by (simp add: example_server_def example_request_def)
  have expiry: "\<not> (rq_Expires (example_request 0) > 0
                  \<and> rq_Expires (example_request 0) < time_Now_UnixMilli ?w)"
    by (simp add: example_request_def)
  have hash: "getKeyHash ?w (Get_Authorization (example_ctx 0)) = Inr ''H(root)''"
    by (simp add: example_world_def example_ctx_def)
  have auth: "db_GetKeyByHash ?s [] ''H(root)'' = (Inr root_key, [])"
    by (simp add: example_server_def root_key_def)
  have root: "k_ForWorkspaceId root_key \<noteq> []"
    by (simp add: root_key_def)
  have api: "db_GetApi ?s [] (rq_ApiId (example_request 0)) = (Inr ?api, [])"
    by (simp add: example_server_def example_request_def api_1_def)
  have other: "a_WorkspaceId ?api \<noteq> k_ForWorkspaceId root_key"
    by (simp add: root_key_def)
  have id: "rq_ApiId (example_request 0) = ''api_1''"
    by (simp add: example_request_def)
  from createKey_rejects_other_workspace [OF parse valid expiry hash auth root api other] other
  show ?thesis
    by (simp add: id)
qed

text \<open>
  Claim C4, at its boundary. The check of line 70 is \<^verbatim>\<open>req.Expires < time.Now().UnixMilli()\<close>:
  a request whose \<^verbatim>\<open>expires\<close> equals the clock's reading, 1000 here, is not rejected. The
  handler goes on to both lookups, stores the key and answers 200.
\<close>

theorem createKey_accepts_expires_equal_to_now:
  "rq_Expires (example_request 1000) = time_Now_UnixMilli (example_world 1000)
   \<and> createKey (example_world 1000) (example_server api_1 root_key) (example_ctx 1000) [] =
      (JSON 200 (CreateKeyResponse ''sk_3ZxQh7Kw'' ''key_new''),
       [GetKeyByHash ''H(root)'', GetApi ''api_1'',
        CreateKey (newKey (example_world 1000) (example_request 1000) root_key api_1
                     ''sk_3ZxQh7Kw'')],
       [newKey (example_world 1000) (example_request 1000) root_key api_1 ''sk_3ZxQh7Kw''])
   \<and> k_Expires (newKey (example_world 1000) (example_request 1000) root_key api_1
        ''sk_3ZxQh7Kw'') = time_UnixMilli 1000"
proof -
  have now: "rq_Expires (example_request 1000) = time_Now_UnixMilli (example_world 1000)"
    by (simp add: example_request_def example_world_def)
  have parse: "BodyParser (example_ctx 1000) defaultRequest = Inr (example_request 1000)"
    by (simp add: example_ctx_def example_request_def)
  have req: "rq_ApiId (example_request 1000) = ''api_1''"
    "rq_Prefix (example_request 1000) = ''sk''" "rq_Expires (example_request 1000) = 1000"
    by (simp_all add: example_request_def)
  have run: "createKey (example_world 1000) (example_server api_1 root_key)
               (example_ctx 1000) [] =
      (JSON 200 (CreateKeyResponse ''sk_3ZxQh7Kw'' ''key_new''),
       [GetKeyByHash ''H(root)'', GetApi ''api_1'',
        CreateKey (newKey (example_world 1000) (example_request 1000) root_key api_1
                     ''sk_3ZxQh7Kw'')],
       [newKey (example_world 1000) (example_request 1000) root_key api_1 ''sk_3ZxQh7Kw''])"
    unfolding createKey_def parse
    by (simp add: req example_server_def example_world_def example_ctx_def root_key_def
        api_1_def AuthTypeKey_def newKey_def)
  have exp: "k_Expires (newKey (example_world 1000) (example_request 1000) root_key api_1
        ''sk_3ZxQh7Kw'') = time_UnixMilli 1000"
    by (simp add: newKey_def req)
  from now run exp show ?thesis by blast
qed

text \<open>
  Read off that result: the answer is not the 400 of the expiry check, and storage calls
  were made.
\<close>

theorem createKey_accepts_expires_equal_to_now_witness:
  "fst (createKey (example_world 1000) (example_server api_1 root_key) (example_ctx 1000) [])
     \<noteq> JSON 400 (ErrorResponse BAD_REQUEST expires_message)
   \<and> GetKeyByHash ''H(root)''
       \<in> set (fst (snd (createKey (example_world 1000) (example_server api_1 root_key)
                          (example_ctx 1000) [])))"
  using createKey_accepts_expires_equal_to_now by simp

section \<open>The translator: keys\<close>

text \<open>
  Claim C6, as the code has it. Encoding a Key with \<^verbatim>\<open>keyEntityToModel\<close> and decoding the
  record with \<^verbatim>\<open>keyModelToEntity\<close> gives back the same entity whenever the JSON library
  writes the metadata as a non-empty text that it reads back as the same metadata, the
  rate-limit policy is absent or has a non-empty type, and the quota count is 0 unless the
  quota is enabled. Every other optional field (\<^verbatim>\<open>keyAuthId\<close>, \<^verbatim>\<open>ownerId\<close>, \<^verbatim>\<open>name\<close>,
  \<^verbatim>\<open>expires\<close>, \<^verbatim>\<open>forWorkspaceId\<close>) may be present or absent.
\<close>

theorem keyEntityToModel_roundtrip:
  assumes mar: "marshal (k_Meta e) = Inr buf" and buf: "buf \<noteq> []"
    and unm: "unmarshal buf = Inr (k_Meta e)"
    and rl: "\<forall>r. k_Ratelimit e = Some r \<longrightarrow> rl_Type r \<noteq> []"
    and rem: "rem_Enabled (k_Remaining e) \<or> rem_Remaining (k_Remaining e) = 0"
  shows "\<exists>m. keyEntityToModel marshal e = Inr m
             \<and> keyModelToEntity unmarshal m = Inr (e :: 'v Key)"
proof -
  obtain m where m: "keyEntityToModel marshal e = Inr m"
    using mar by (simp add: keyEntityToModel_def)
  note f = keyEntityToModel_Inr [OF m]
  have meta: "mk_Meta m = \<lparr> ns_String = buf, ns_Valid = True \<rparr>"
    using f(1) mar buf by auto
  have ratelimit:
    "(if ns_Valid (mk_RatelimitType m)
      then Some \<lparr> rl_Type = ns_String (mk_RatelimitType m),
                  rl_Limit = ni_Int64 (mk_RatelimitLimit m),
                  rl_RefillRate = ni_Int64 (mk_RatelimitRefillRate m),
                  rl_RefillInterval = ni_Int64 (mk_RatelimitRefillInterval m) \<rparr>
      else None) = k_Ratelimit e"
  proof (cases "k_Ratelimit e")
    case None
    then show ?thesis by (simp add: keyEntityToModel_ratelimit_None [OF m])
  next
    case (Some r)
    with rl have "rl_Type r \<noteq> []" by simp
    then show ?thesis by (simp add: Some keyEntityToModel_ratelimit_Some [OF m Some])
  qed
  have remaining:
    "(if ni_Valid (mk_RemainingRequests m)
      then \<lparr> rem_Enabled = True, rem_Remaining = ni_Int64 (mk_RemainingRequests m) \<rparr>
      else \<lparr> rem_Enabled = False, rem_Remaining = 0 \<rparr>) = k_Remaining e"
    using rem by (cases "k_Remaining e") (auto simp: f(12))
  have "keyModelToEntity unmarshal m = Inr e"
    unfolding keyModelToEntity_def ratelimit remaining
    by (simp add: meta unm f(2-11))
  with m show ?thesis by blast
qed

text \<open>
  At a key with every optional field present and a one-entry metadata map, the library
  standing for a codec that writes this map as \<^verbatim>\<open>{plan:pro}\<close> and reads it back.
\<close>

theorem keyEntityToModel_roundtrip_witness:
  "\<exists>m. keyEntityToModel (\<lambda>v. Inr ''{plan:pro}'') key_full = Inr m
       \<and> keyModelToEntity (\<lambda>t. Inr (Some (Map.empty(''plan'' \<mapsto> ''pro'')))) m = Inr key_full"
proof (rule keyEntityToModel_roundtrip [where buf = "''{plan:pro}''"])
  show "Inr ''{plan:pro}'' = (Inr ''{plan:pro}'' :: go_error + string)" by simp
  show "''{plan:pro}'' \<noteq> []" by simp
  show "Inr (Some (Map.empty(''plan'' \<mapsto> ''pro''))) =
        (Inr (k_Meta key_full) :: go_error + string meta)"
    by (simp add: key_full_def)
  show "\<forall>r. k_Ratelimit key_full = Some r \<longrightarrow> rl_Type r \<noteq> []"
    by (auto simp: key_full_def)
  show "rem_Enabled (k_Remaining key_full) \<or> rem_Remaining (k_Remaining key_full) = 0"
    by (simp add: key_full_def)
qed

text \<open>
  Where the round trip of claim C6 fails: \<open>key_quota_off\<close> (the quota switched off, a
  count of 7 still stored) and \<open>key_untyped_policy\<close> (a rate-limit policy whose type is
  empty) both come back as \<open>root_key\<close>, which has the count 0 and no policy. The metadata
  is the nil map, written as \<^verbatim>\<open>null\<close> and read back as the nil map.
\<close>

theorem keyEntityToModel_roundtrip_counterexample:
  "(case keyEntityToModel (\<lambda>v. Inr ''null'') key_quota_off of
      Inl err \<Rightarrow> False
    | Inr m \<Rightarrow> keyModelToEntity (\<lambda>t. Inr None) m = Inr root_key)
   \<and> root_key \<noteq> key_quota_off
   \<and> (case keyEntityToModel (\<lambda>v. Inr ''null'') key_untyped_policy of
        Inl err \<Rightarrow> False
      | Inr m \<Rightarrow> keyModelToEntity (\<lambda>t. Inr None) m = Inr root_key)
   \<and> root_key \<noteq> key_untyped_policy"
  by (simp add: keyEntityToModel_def keyModelToEntity_def root_key_def key_quota_off_def
      key_untyped_policy_def IsZero_def)

text \<open>
  Claim C7, as the code has it. For a Key with a rate-limit policy, \<^verbatim>\<open>keyEntityToModel\<close>
  marks the type column present exactly when the type is non-empty, the limit column
  exactly when the limit is positive and the refill-rate column exactly when the refill
  rate is positive, each on its own; all four columns are present when the type is
  non-empty and the three numbers are positive. Without a policy all four are absent.
\<close>

theorem keyEntityToModel_ratelimit_columns:
  assumes "keyEntityToModel marshal e = Inr m"
  shows "case k_Ratelimit e of
           None \<Rightarrow>
             \<not> ns_Valid (mk_RatelimitType m) \<and> \<not> ni_Valid (mk_RatelimitLimit m)
             \<and> \<not> ni_Valid (mk_RatelimitRefillRate m)
             \<and> \<not> ni_Valid (mk_RatelimitRefillInterval m)
         | Some r \<Rightarrow>
             ns_Valid (mk_RatelimitType m) = (rl_Type r \<noteq> [])
             \<and> ni_Valid (mk_RatelimitLimit m) = (0 < rl_Limit r)
             \<and> ni_Valid (mk_RatelimitRefillRate m) = (0 < rl_RefillRate r)
             \<and> (rl_Type r \<noteq> [] \<and> 0 < rl_Limit r \<and> 0 < rl_RefillRate r
                  \<and> 0 < rl_RefillInterval r
                \<longrightarrow> ns_Valid (mk_RatelimitType m) \<and> ni_Valid (mk_RatelimitLimit m)
                    \<and> ni_Valid (mk_RatelimitRefillRate m)
                    \<and> ni_Valid (mk_RatelimitRefillInterval m))"
proof (cases "k_Ratelimit e")
  case None
  then show ?thesis
    by (simp add: keyEntityToModel_ratelimit_None [OF assms None])
next
  case (Some r)
  then show ?thesis
    by (simp add: keyEntityToModel_ratelimit_Some [OF assms Some])
qed

text \<open>At the key with the policy \<^verbatim>\<open>{fast, 10, 1, 1000}\<close>: all four columns are present.\<close>

theorem keyEntityToModel_ratelimit_columns_witness:
  "\<exists>m. keyEntityToModel (\<lambda>v. Inr ''{plan:pro}'') key_full = Inr m
       \<and> ns_Valid (mk_RatelimitType m) \<and> ni_Valid (mk_RatelimitLimit m)
       \<and> ni_Valid (mk_RatelimitRefillRate m) \<and> ni_Valid (mk_RatelimitRefillInterval m)"
proof -
  obtain m where m: "keyEntityToModel (\<lambda>v. Inr ''{plan:pro}'') key_full = Inr m"
    by (simp add: keyEntityToModel_def)
  have policy: "k_Ratelimit key_full =
      Some \<lparr> rl_Type = ''fast'', rl_Limit = 10, rl_RefillRate = 1, rl_RefillInterval = 1000 \<rparr>"
    by (simp add: key_full_def)
  from keyEntityToModel_ratelimit_columns [OF m]
  have "ns_Valid (mk_RatelimitType m) \<and> ni_Valid (mk_RatelimitLimit m)
        \<and> ni_Valid (mk_RatelimitRefillRate m) \<and> ni_Valid (mk_RatelimitRefillInterval m)"
    by (simp add: policy)
  with m show ?thesis by blast
qed

text \<open>
  Where claim C7 fails: the policy \<^verbatim>\<open>{fast, 10, 0, 1000}\<close> is not nil, its type and limit
  columns are written as present and its refill-rate column as absent.
\<close>

theorem keyEntityToModel_ratelimit_columns_counterexample:
  "k_Ratelimit key_partial_policy \<noteq> None
   \<and> (case keyEntityToModel (\<lambda>v. Inr ''null'') key_partial_policy of
        Inl err \<Rightarrow> False
      | Inr m \<Rightarrow>
          ns_Valid (mk_RatelimitType m) \<and> ni_Valid (mk_RatelimitLimit m)
          \<and> \<not> ni_Valid (mk_RatelimitRefillRate m))"
  by (simp add: keyEntityToModel_def root_key_def key_partial_policy_def)

section \<open>The translator: Apis\<close>

text \<open>
  Claim C8, as the code has it. \<^verbatim>\<open>apiModelToEntity\<close> has no error result. For a record
  whose stored auth type is present and named neither \<^verbatim>\<open>key\<close> nor \<^verbatim>\<open>jwt\<close> it returns an
  entity with the record's id, name and workspace whose \<^verbatim>\<open>AuthType\<close> is left at the zero
  value, which is neither of the two auth types.
\<close>

theorem apiModelToEntity_unknown_auth_type:
  assumes "nat_Valid (ma_AuthType model)"
    and "String (nat_AuthType (ma_AuthType model)) \<noteq> ''key''"
    and "String (nat_AuthType (ma_AuthType model)) \<noteq> ''jwt''"
  shows "a_AuthType (apiModelToEntity String model) = []
         \<and> a_AuthType (apiModelToEntity String model) \<noteq> AuthTypeKey
         \<and> a_AuthType (apiModelToEntity String model) \<noteq> AuthTypeJWT
         \<and> a_Id (apiModelToEntity String model) = ma_ID model
         \<and> a_Name (apiModelToEntity String model) = ma_Name model
         \<and> a_WorkspaceId (apiModelToEntity String model) = ma_WorkspaceID model"
  using assms
  by (simp add: apiModelToEntity_def Let_def AuthTypeKey_def AuthTypeJWT_def)

theorem apiModelToEntity_unknown_auth_type_witness:
  "a_AuthType (apiModelToEntity example_String
      (stored_api 3 \<lparr> ns_String = ''ka_1'', ns_Valid = True \<rparr>)) = []
   \<and> a_Id (apiModelToEntity example_String
      (stored_api 3 \<lparr> ns_String = ''ka_1'', ns_Valid = True \<rparr>)) = ''api_1''"
proof -
  let ?m = "stored_api 3 \<lparr> ns_String = ''ka_1'', ns_Valid = True \<rparr>"
  have present: "nat_Valid (ma_AuthType ?m)"
    by (simp add: stored_api_def)
  have other: "example_String (nat_AuthType (ma_AuthType ?m)) \<noteq> ''key''"
    "example_String (nat_AuthType (ma_AuthType ?m)) \<noteq> ''jwt''"
    by (simp_all add: stored_api_def example_String_def)
  have id: "ma_ID ?m = ''api_1''"
    by (simp add: stored_api_def)
  from apiModelToEntity_unknown_auth_type [of ?m example_String, OF present other] show ?thesis
    by (simp add: id)
qed

text \<open>
  Where claim C8 fails: the stored auth type 3 is present and is named neither \<^verbatim>\<open>key\<close> nor
  \<^verbatim>\<open>jwt\<close>; the translator returns an entity, with the empty auth type.
\<close>

theorem apiModelToEntity_unknown_auth_type_counterexample:
  "nat_Valid (ma_AuthType (stored_api 3 \<lparr> ns_String = ''ka_1'', ns_Valid = True \<rparr>))
   \<and> example_String 3 = ''AuthType(?)''
   \<and> apiModelToEntity example_String (stored_api 3 \<lparr> ns_String = ''ka_1'', ns_Valid = True \<rparr>) =
      \<lparr> a_Id = ''api_1'', a_Name = ''orders'', a_WorkspaceId = ''workspace_1'',
        a_IpWhitelist = [], a_AuthType = [], a_KeyAuthId = ''ka_1'' \<rparr>"
  by (simp add: apiModelToEntity_def stored_api_def example_String_def Let_def)

text \<open>
  Claim C9, as the code has it. The entity \<^verbatim>\<open>apiModelToEntity\<close> produces has
  \<^verbatim>\<open>AuthType = key\<close> exactly when the stored auth type is present and named \<^verbatim>\<open>key\<close>; the
  \<^verbatim>\<open>keyAuthId\<close> of such an entity is the stored \<^verbatim>\<open>key_auth_id\<close> string, so it is non-empty
  exactly when the stored string is.
\<close>

theorem apiModelToEntity_key_auth:
  "(a_AuthType (apiModelToEntity String model) = AuthTypeKey) =
     (nat_Valid (ma_AuthType model) \<and> String (nat_AuthType (ma_AuthType model)) = ''key'')
   \<and> (a_AuthType (apiModelToEntity String model) = AuthTypeKey
      \<longrightarrow> a_KeyAuthId (apiModelToEntity String model) = ns_String (ma_KeyAuthID model)
          \<and> (a_KeyAuthId (apiModelToEntity String model) \<noteq> []) =
              (ns_String (ma_KeyAuthID model) \<noteq> []))"
  by (simp add: apiModelToEntity_def Let_def AuthTypeKey_def AuthTypeJWT_def)

theorem apiModelToEntity_key_auth_witness:
  "a_AuthType (apiModelToEntity example_String
      (stored_api 1 \<lparr> ns_String = ''ka_1'', ns_Valid = True \<rparr>)) = AuthTypeKey
   \<and> a_KeyAuthId (apiModelToEntity example_String
      (stored_api 1 \<lparr> ns_String = ''ka_1'', ns_Valid = True \<rparr>)) = ''ka_1''"
proof -
  let ?m = "stored_api 1 \<lparr> ns_String = ''ka_1'', ns_Valid = True \<rparr>"
  have stored: "nat_Valid (ma_AuthType ?m)" "example_String (nat_AuthType (ma_AuthType ?m)) = ''key''"
    "ns_String (ma_KeyAuthID ?m) = ''ka_1''"
    by (simp_all add: stored_api_def example_String_def)
  from apiModelToEntity_key_auth [of example_String ?m] show ?thesis
    by (simp add: stored)
qed

text \<open>
  Where claim C9 fails: a record with the auth type \<^verbatim>\<open>key\<close> and a null \<^verbatim>\<open>key_auth_id\<close>
  column becomes an entity with \<^verbatim>\<open>AuthType = key\<close> and an empty \<^verbatim>\<open>keyAuthId\<close>; and a
  record with the auth type \<^verbatim>\<open>jwt\<close> that stores a \<^verbatim>\<open>key_auth_id\<close> becomes an entity with
  \<^verbatim>\<open>AuthType = jwt\<close> and that \<^verbatim>\<open>keyAuthId\<close>.
\<close>

theorem apiModelToEntity_key_auth_counterexample:
  "a_AuthType (apiModelToEntity example_String
      (stored_api 1 \<lparr> ns_String = [], ns_Valid = False \<rparr>)) = AuthTypeKey
   \<and> a_KeyAuthId (apiModelToEntity example_String
      (stored_api 1 \<lparr> ns_String = [], ns_Valid = False \<rparr>)) = []
   \<and> a_AuthType (apiModelToEntity example_String
      (stored_api 2 \<lparr> ns_String = ''ka_1'', ns_Valid = True \<rparr>)) = AuthTypeJWT
   \<and> AuthTypeJWT \<noteq> AuthTypeKey
   \<and> a_KeyAuthId (apiModelToEntity example_String
      (stored_api 2 \<lparr> ns_String = ''ka_1'', ns_Valid = True \<rparr>)) = ''ka_1''"
  by (simp add: apiModelToEntity_def stored_api_def example_String_def Let_def
      AuthTypeKey_def AuthTypeJWT_def)

text \<open>
  Claim C10. Whatever the entity's \<^verbatim>\<open>AuthType\<close>, \<^verbatim>\<open>apiEntityToModel\<close> writes the auth-type
  column as the value 1, marked present; 1 being the stored value named \<^verbatim>\<open>key\<close>, decoding
  the record gives an entity with \<^verbatim>\<open>AuthType = key\<close>, also when the encoded entity had
  \<^verbatim>\<open>AuthType = jwt\<close>.
\<close>

theorem apiEntityToModel_writes_key:
  "ma_AuthType (apiEntityToModel a) = \<lparr> nat_AuthType = 1, nat_Valid = True \<rparr>
   \<and> (String 1 = ''key''
      \<longrightarrow> a_AuthType (apiModelToEntity String (apiEntityToModel a)) = AuthTypeKey)"
  by (simp add: apiEntityToModel_def apiModelToEntity_def Let_def)

theorem apiEntityToModel_writes_key_witness:
  "a_AuthType (api_1\<lparr>a_AuthType := AuthTypeJWT\<rparr>) = AuthTypeJWT
   \<and> AuthTypeJWT \<noteq> AuthTypeKey
   \<and> a_AuthType (apiModelToEntity example_String
        (apiEntityToModel (api_1\<lparr>a_AuthType := AuthTypeJWT\<rparr>))) = AuthTypeKey"
proof -
  have name: "example_String 1 = ''key''"
    by (simp add: example_String_def)
  have differ: "AuthTypeJWT \<noteq> AuthTypeKey"
    by (simp add: AuthTypeJWT_def AuthTypeKey_def)
  from apiEntityToModel_writes_key [of "api_1\<lparr>a_AuthType := AuthTypeJWT\<rparr>" example_String] name
  have "a_AuthType (apiModelToEntity example_String
        (apiEntityToModel (api_1\<lparr>a_AuthType := AuthTypeJWT\<rparr>))) = AuthTypeKey"
    by blast
  with differ show ?thesis by simp
qed

end
